theory Spec2Isabelle
  imports Complex_Main
begin

section \<open>Tensors of the numerical framework\<close>

text \<open>
  The loss functions of \<^verbatim>\<open>delta/utils/loss/loss_utils.py\<close> are compositions of operators
  of the tensor framework. A tensor is its shape and its entries in row-major order;
  \<open>float32\<close> entries are idealised as real numbers (without rounding and overflow),
  except in the operators of the subsection on \<open>float32\<close> below; integer entries are
  \<open>int\<close>. A tensor of the framework always has \<open>prod_list shape\<close> entries (\<open>wf\<close>).
\<close>

record 'a tensor =
  shape :: "nat list"
  data :: "'a list"

definition wf :: "'a tensor \<Rightarrow> bool" where
  "wf t = (length (data t) = prod_list (shape t))"

text \<open>\<^verbatim>\<open>tf.rank\<close>\<close>

definition rank :: "'a tensor \<Rightarrow> nat" where
  "rank t = length (shape t)"

text \<open>All multi-indices of a shape in row-major order, and the position of one of them.\<close>

fun indices :: "nat list \<Rightarrow> nat list list" where
  "indices [] = [[]]"
| "indices (d # ds) = concat (map (\<lambda>i. map ((#) i) (indices ds)) [0..<d])"

fun offset :: "nat list \<Rightarrow> nat list \<Rightarrow> nat" where
  "offset (d # ds) (i # is) = i * prod_list ds + offset ds is"
| "offset ds is = 0"

definition valid :: "nat list \<Rightarrow> nat list \<Rightarrow> bool" where
  "valid s idx = list_all2 (<) idx s"

definition entry :: "'a tensor \<Rightarrow> nat list \<Rightarrow> 'a" where
  "entry t idx = data t ! offset (shape t) idx"

definition tabulate :: "nat list \<Rightarrow> (nat list \<Rightarrow> 'a) \<Rightarrow> 'a tensor" where
  "tabulate s f = \<lparr>shape = s, data = map f (indices s)\<rparr>"


text \<open>Elementwise operators of one tensor, and of a tensor and a Python number.\<close>

definition map_tensor :: "('a \<Rightarrow> 'b) \<Rightarrow> 'a tensor \<Rightarrow> 'b tensor" where
  "map_tensor f t = \<lparr>shape = shape t, data = map f (data t)\<rparr>"

text \<open>\<^verbatim>\<open>tf.squeeze(t)\<close> without an axis removes every dimension of size 1.\<close>

definition squeeze :: "'a tensor \<Rightarrow> 'a tensor" where
  "squeeze t = \<lparr>shape = filter (\<lambda>d. d \<noteq> 1) (shape t), data = data t\<rparr>"

text \<open>
  \<^verbatim>\<open>tf.one_hot(labels, depth)\<close>: a new last axis of size \<open>depth\<close>, 1 at the label and 0
  elsewhere; a label outside \<open>0..depth-1\<close> gives a row of zeros.
\<close>

definition one_hot :: "int tensor \<Rightarrow> nat \<Rightarrow> ('b :: zero_neq_one) tensor" where
  "one_hot labels depth =
     tabulate (shape labels @ [depth])
       (\<lambda>idx. if entry labels (butlast idx) = int (last idx) then 1 else 0)"

text \<open>\<^verbatim>\<open>tf.ones_like(t)\<close> keeps the shape and the element type of \<open>t\<close>.\<close>

definition ones_like :: "('a :: one) tensor \<Rightarrow> 'a tensor" where
  "ones_like t = map_tensor (\<lambda>_. 1) t"

subsection \<open>Outcomes\<close>

datatype error =
    InvalidArgument \<comment> \<open>the framework raises on incompatible shapes or ranks\<close>
  | AssertionFailed \<comment> \<open>\<^verbatim>\<open>tf.assert_rank\<close> fails\<close>
  | VariableError \<comment> \<open>\<^verbatim>\<open>tf.get_variable\<close> raises\<close>
  | NonFinite \<comment> \<open>the framework goes on with NaN or infinite entries, which the
      real numbers do not have; the model does not follow the computation further\<close>
  | NotModelled \<comment> \<open>an operator form outside this model (batched \<^verbatim>\<open>matmul\<close>)\<close>
  | TypeError \<comment> \<open>an operator is given a tensor of an element type it does not take\<close>

definition and_then :: "error + 'a \<Rightarrow> ('a \<Rightarrow> error + 'b) \<Rightarrow> error + 'b" where
  "and_then r f = (case r of Inl e \<Rightarrow> Inl e | Inr x \<Rightarrow> f x)"

subsection \<open>Broadcasting binary operators\<close>

text \<open>
  Shapes are aligned at their last dimension, the shorter one is padded with 1s on the
  left, and two dimensions are compatible when they are equal or one of them is 1.
\<close>

definition pad_shape :: "nat \<Rightarrow> nat list \<Rightarrow> nat list" where
  "pad_shape n s = replicate (n - length s) 1 @ s"

fun broadcast_dims :: "nat list \<Rightarrow> nat list \<Rightarrow> nat list option" where
  "broadcast_dims [] [] = Some []"
| "broadcast_dims (a # as) (b # bs) =
     (case broadcast_dims as bs of
        None \<Rightarrow> None
      | Some r \<Rightarrow>
          if a = b then Some (a # r)
          else if a = 1 then Some (b # r)
          else if b = 1 then Some (a # r)
          else None)"
| "broadcast_dims as bs = None"

definition broadcast_shape :: "nat list \<Rightarrow> nat list \<Rightarrow> nat list option" where
  "broadcast_shape s1 s2 =
     (let n = max (length s1) (length s2)
      in broadcast_dims (pad_shape n s1) (pad_shape n s2))"

text \<open>The index of an operand of shape \<open>s\<close> that a result index \<open>idx\<close> reads.\<close>

definition bidx :: "nat list \<Rightarrow> nat list \<Rightarrow> nat list" where
  "bidx s idx = map2 (\<lambda>d i. if d = 1 then 0 else i) s (drop (length idx - length s) idx)"

definition binop :: "('a \<Rightarrow> 'b \<Rightarrow> 'c) \<Rightarrow> 'a tensor \<Rightarrow> 'b tensor \<Rightarrow> error + 'c tensor" where
  "binop f x y =
     (case broadcast_shape (shape x) (shape y) of
        None \<Rightarrow> Inl InvalidArgument
      | Some s \<Rightarrow>
          Inr (tabulate s (\<lambda>idx. f (entry x (bidx (shape x) idx)) (entry y (bidx (shape y) idx)))))"

definition tf_add :: "real tensor \<Rightarrow> real tensor \<Rightarrow> error + real tensor" where
  "tf_add = binop (+)"

definition tf_multiply :: "real tensor \<Rightarrow> real tensor \<Rightarrow> error + real tensor" where
  "tf_multiply = binop (*)"

text \<open>\<^verbatim>\<open>tf.div\<close>: a division by zero gives NaN or an infinity.\<close>

definition tf_div :: "real tensor \<Rightarrow> real tensor \<Rightarrow> error + real tensor" where
  "tf_div x y =
     (case broadcast_shape (shape x) (shape y) of
        None \<Rightarrow> Inl InvalidArgument
      | Some s \<Rightarrow>
          if list_ex (\<lambda>idx. entry y (bidx (shape y) idx) = 0) (indices s) then Inl NonFinite
          else binop (/) x y)"

subsection \<open>Reductions, matrix product, selection\<close>

text \<open>\<^verbatim>\<open>tf.norm(x, axis=axis, keep_dims=True)\<close>: the Euclidean norm along one axis.\<close>

definition tf_norm :: "nat \<Rightarrow> real tensor \<Rightarrow> error + real tensor" where
  "tf_norm axis x =
     (if axis < rank x
      then Inr (tabulate ((shape x)[axis := 1])
                  (\<lambda>idx. sqrt (\<Sum>k<shape x ! axis. (entry x (idx[axis := k]))\<^sup>2)))
      else Inl InvalidArgument)"

text \<open>\<^verbatim>\<open>tf.matmul\<close> of two matrices.\<close>

definition matmul :: "real tensor \<Rightarrow> real tensor \<Rightarrow> error + real tensor" where
  "matmul a b =
     (if rank a < 2 \<or> rank b < 2 then Inl InvalidArgument
      else if rank a > 2 \<or> rank b > 2 then Inl NotModelled
      else if shape a ! 1 \<noteq> shape b ! 0 then Inl InvalidArgument
      else Inr (tabulate [shape a ! 0, shape b ! 1]
                  (\<lambda>idx. \<Sum>k<shape a ! 1. entry a [idx ! 0, k] * entry b [k, idx ! 1])))"

text \<open>\<^verbatim>\<open>tf.sqrt\<close>: the square root of a negative number is NaN.\<close>

definition tf_sqrt :: "real tensor \<Rightarrow> error + real tensor" where
  "tf_sqrt x = (if list_ex (\<lambda>v. v < 0) (data x) then Inl NonFinite else Inr (map_tensor sqrt x))"

definition relu :: "real tensor \<Rightarrow> real tensor" where
  "relu x = map_tensor (\<lambda>v. max v 0) x"

text \<open>\<^verbatim>\<open>tf.cast(x, dtype=tf.bool)\<close>: every non-zero number is true.\<close>

definition cast_bool :: "real tensor \<Rightarrow> bool tensor" where
  "cast_bool x = map_tensor (\<lambda>v. v \<noteq> 0) x"

text \<open>
  \<^verbatim>\<open>tf.where(cond, x, y)\<close> for three tensors of one shape, the only form that
  \<^verbatim>\<open>arcface_loss\<close> reaches: its three operands are elementwise images of \<open>cos_t\<close>.
\<close>

definition tf_where :: "bool tensor \<Rightarrow> 'a tensor \<Rightarrow> 'a tensor \<Rightarrow> error + 'a tensor" where
  "tf_where c x y =
     (if shape c = shape x \<and> shape y = shape x
      then Inr (tabulate (shape x) (\<lambda>idx. if entry c idx then entry x idx else entry y idx))
      else Inl NotModelled)"

text \<open>\<^verbatim>\<open>tf.reduce_mean\<close> over all entries; of no entries it is NaN.\<close>

definition reduce_mean :: "real tensor \<Rightarrow> error + real" where
  "reduce_mean t =
     (if data t = [] then Inl NonFinite else Inr (sum_list (data t) / real (length (data t))))"

subsection \<open>Numbers and operators of type \<open>float32\<close>\<close>















subsection \<open>The variable store\<close>

text \<open>
  \<^verbatim>\<open>tf.get_variable\<close> reads and writes the variables of the current graph, which are
  no argument of the loss functions. The store maps the full name of a variable to its
  value; \<open>reuse\<close> is the reuse mode of the enclosing variable scope and \<open>scope_name\<close>
  its prefix (empty at top level). A new variable takes the value the initializer
  draws for its shape.
\<close>

datatype reuse_mode = NoReuse | Reuse | AutoReuse

record graph =
  scope_name :: string
  reuse :: reuse_mode
  variables :: "string \<rightharpoonup> real tensor"

definition get_variable ::
  "(nat list \<Rightarrow> real tensor) \<Rightarrow> graph \<Rightarrow> string \<Rightarrow> nat list \<Rightarrow> (error + real tensor) \<times> graph" where
  "get_variable initializer g name shp =
     (case variables g name of
        Some v \<Rightarrow>
          if reuse g = NoReuse \<or> shape v \<noteq> shp then (Inl VariableError, g) else (Inr v, g)
      | None \<Rightarrow>
          if reuse g = Reuse then (Inl VariableError, g)
          else (Inr (initializer shp), g\<lparr>variables := (variables g)(name \<mapsto> initializer shp)\<rparr>))"

section \<open>The loss functions\<close>

text \<open>
  The operators that do the numerical work (\<^verbatim>\<open>tf.losses.softmax_cross_entropy\<close>,
  \<^verbatim>\<open>tf.nn.ctc_loss_v2\<close>, \<^verbatim>\<open>tf.contrib.crf.crf_log_likelihood\<close>,
  \<^verbatim>\<open>tf.contrib.seq2seq.sequence_loss\<close>, the Xavier initializer) and the helper
  \<^verbatim>\<open>delta.utils.len_to_mask\<close> are not part of the file; each function takes the ones it
  calls as its first arguments. Keyword arguments with a default are ordinary arguments
  here, and an argument that may be \<^verbatim>\<open>None\<close> is an option.
\<close>

datatype reduction =
  NONE | SUM | MEAN | SUM_OVER_BATCH_SIZE | SUM_OVER_NONZERO_WEIGHTS | SUM_BY_NONZERO_WEIGHTS

text \<open>
  What the functions pass as \<^verbatim>\<open>weights\<close>: the Python number \<^verbatim>\<open>1.0\<close>, the mask of
  \<^verbatim>\<open>len_to_mask\<close> (of element type \<open>'m\<close>), a \<open>float32\<close> tensor, or an integer tensor.
\<close>

datatype 'm weights =
    PyFloat real
  | MaskTensor "'m tensor"
  | FloatTensor "real tensor"
  | IntTensor "int tensor"

subsection \<open>\<^verbatim>\<open>cross_entropy\<close>\<close>

definition cross_entropy ::
  "(int tensor \<Rightarrow> real tensor \<Rightarrow> 'm weights \<Rightarrow> real \<Rightarrow> reduction \<Rightarrow> 'r) \<Rightarrow>
   (int tensor \<Rightarrow> 'm tensor) \<Rightarrow>
   real tensor \<Rightarrow> int tensor \<Rightarrow> 'i \<Rightarrow> int tensor option \<Rightarrow> real \<Rightarrow> reduction \<Rightarrow> 'r" where
  "cross_entropy softmax_cross_entropy len_to_mask
       logits labels input_length label_length smoothing reduction =
     (let onehot_labels =
            (if int (rank logits) - int (rank labels) = 1
             then one_hot labels (last (shape logits))
             else labels);
          weights =
            (case label_length of
               Some l \<Rightarrow> MaskTensor (len_to_mask l)
             | None \<Rightarrow> PyFloat 1.0)
      in softmax_cross_entropy onehot_labels logits weights smoothing reduction)"

subsection \<open>\<^verbatim>\<open>ctc_lambda_loss\<close>\<close>

text \<open>
  \<^verbatim>\<open>t.set_shape([None])\<close> declares that \<open>t\<close> is a vector; it raises when \<open>t\<close> is known
  to have another rank and leaves the value of \<open>t\<close> as it is.
\<close>

definition set_shape_vector :: "'a tensor \<Rightarrow> error + 'a tensor" where
  "set_shape_vector t = (if rank t = 1 then Inr t else Inl InvalidArgument)"

text \<open>
  The arguments of the operator are \<open>labels\<close>, \<open>logits\<close>, \<open>label_length\<close>,
  \<open>logit_length\<close>, \<open>logits_time_major\<close> and \<open>blank_index\<close>; it returns the loss or
  raises. The four \<^verbatim>\<open>tf.assert_rank\<close> are control dependencies of the operator: when
  one fails the operator does not run.
\<close>

definition ctc_lambda_loss ::
  "(int tensor \<Rightarrow> real tensor \<Rightarrow> int tensor \<Rightarrow> int tensor \<Rightarrow> bool \<Rightarrow> int \<Rightarrow> error + real tensor) \<Rightarrow>
   real tensor \<Rightarrow> int tensor \<Rightarrow> int tensor \<Rightarrow> int tensor \<Rightarrow> int \<Rightarrow> error + real tensor" where
  "ctc_lambda_loss ctc_loss_v2 logits labels input_length label_length blank_index =
     (let ilen = (if rank input_length = 1 then input_length else squeeze input_length);
          olen = (if rank label_length = 1 then label_length else squeeze label_length)
      in if rank labels \<noteq> 2 then Inl AssertionFailed
         else if rank logits \<noteq> 3 then Inl AssertionFailed
         else if rank ilen \<noteq> 1 then Inl AssertionFailed
         else if rank olen \<noteq> 1 then Inl AssertionFailed
         else and_then (ctc_loss_v2 labels logits olen ilen False blank_index)
                (\<lambda>batch_loss. set_shape_vector batch_loss))"

subsection \<open>\<^verbatim>\<open>crf_log_likelihood\<close>\<close>

text \<open>
  The operator returns the per-example log-likelihood and the transition parameters.
  The loss is a tensor of rank 0, here a real number, or NaN for an empty batch.
\<close>

definition crf_log_likelihood ::
  "(real tensor \<Rightarrow> int tensor \<Rightarrow> int tensor \<Rightarrow> real tensor \<Rightarrow> real tensor \<times> 'p) \<Rightarrow>
   real tensor \<Rightarrow> int tensor \<Rightarrow> int tensor \<Rightarrow> real tensor \<Rightarrow> (error + real) \<times> 'p" where
  "crf_log_likelihood crf_op tags_scores labels input_length transitions =
     (case crf_op tags_scores labels input_length transitions of
        (log_likelihood, transition_params) \<Rightarrow>
          (reduce_mean (map_tensor uminus log_likelihood), transition_params))"

subsection \<open>\<^verbatim>\<open>mask_sequence_loss\<close>\<close>

definition mask_sequence_loss ::
  "(real tensor \<Rightarrow> int tensor \<Rightarrow> 'm weights \<Rightarrow> 'r) \<Rightarrow>
   (int tensor \<Rightarrow> 'm tensor) \<Rightarrow> ('m tensor \<Rightarrow> real tensor) \<Rightarrow>
   real tensor \<Rightarrow> int tensor \<Rightarrow> 'i \<Rightarrow> int tensor option \<Rightarrow> 's \<Rightarrow> 'r" where
  "mask_sequence_loss sequence_loss len_to_mask cast_float32
       logits labels input_length label_length smoothing =
     (let weights =
            (case label_length of
               Some l \<Rightarrow> FloatTensor (cast_float32 (len_to_mask l))
             | None \<Rightarrow> IntTensor (ones_like labels))
      in sequence_loss logits labels weights)"

subsection \<open>\<^verbatim>\<open>arcface_loss\<close>\<close>

text \<open>
  The part of \<^verbatim>\<open>arcface_loss\<close> after the weights are known: from the normalised
  embedding and the weights to the output.
\<close>

definition arcface_output ::
  "real tensor \<Rightarrow> real tensor \<Rightarrow> int tensor \<Rightarrow> nat \<Rightarrow> real \<Rightarrow> real \<Rightarrow> bool \<Rightarrow> error + real tensor" where
  "arcface_output embedding weights labels out_num s m limit_to_pi =
     (let cos_m = cos m;
          sin_m = sin m;
          mm = sin_m * m;
          threshold = cos (pi - m)
      in
      and_then (tf_norm 0 weights) (\<lambda>weights_norm.
      and_then (tf_div weights weights_norm) (\<lambda>weights.
      and_then (matmul embedding weights) (\<lambda>cos_t.
      let cos_t2 = map_tensor (\<lambda>v. v\<^sup>2) cos_t;
          sin_t2 = map_tensor (\<lambda>v. 1 - v) cos_t2
      in
      and_then (tf_sqrt sin_t2) (\<lambda>sin_t.
      and_then (binop (-) (map_tensor (\<lambda>v. v * cos_m) cos_t) (map_tensor (\<lambda>v. v * sin_m) sin_t))
        (\<lambda>d.
      let cos_mt = map_tensor (\<lambda>v. s * v) d
      in
      and_then
        (if limit_to_pi
         then (let cond_v = map_tensor (\<lambda>v. v - threshold) cos_t;
                   cond = cast_bool (relu cond_v);
                   keep_val = map_tensor (\<lambda>v. s * (v - mm)) cos_t
               in tf_where cond cos_mt keep_val)
         else Inr cos_mt)
        (\<lambda>cos_mt_temp.
      let mask = one_hot labels out_num;
          inv_mask = map_tensor (\<lambda>v. 1 - v) mask;
          s_cos_t = map_tensor (\<lambda>v. s * v) cos_t
      in
      and_then (tf_multiply s_cos_t inv_mask) (\<lambda>a.
      and_then (tf_multiply cos_mt_temp mask) (\<lambda>b.
      tf_add a b)))))))))"

text \<open>
  The whole function. The norm of the embedding is taken first and can raise; the
  variable is then looked up or created when \<open>weights\<close> is \<^verbatim>\<open>None\<close>, whatever the
  division gave; the rest follows.
\<close>

definition arcface_loss ::
  "(nat list \<Rightarrow> real tensor) \<Rightarrow> graph \<Rightarrow>
   real tensor \<Rightarrow> int tensor \<Rightarrow> nat \<Rightarrow> real tensor option \<Rightarrow> real \<Rightarrow> real \<Rightarrow> bool \<Rightarrow>
   (error + real tensor) \<times> graph" where
  "arcface_loss xavier_initializer g embedding labels out_num weights s m limit_to_pi =
     (case tf_norm 1 embedding of
        Inl e \<Rightarrow> (Inl e, g)
      | Inr embedding_norm \<Rightarrow>
          (let embedding' = tf_div embedding embedding_norm;
               (weights', g') =
                 (case weights of
                    Some w \<Rightarrow> (Inr w, g)
                  | None \<Rightarrow>
                      get_variable xavier_initializer g (scope_name g @ ''arcface_loss/weights'')
                        [last (shape embedding), out_num])
           in (and_then weights' (\<lambda>w.
               and_then embedding' (\<lambda>e.
               arcface_output e w labels out_num s m limit_to_pi)), g')))"


section \<open>Notions of the statements\<close>

text \<open>
  The rank preconditions of \<^verbatim>\<open>ctc_lambda_loss\<close>, in terms of shapes. A length
  argument is handed to the operator as it is when it is a vector; otherwise its
  dimensions of size 1 are dropped, and it must then be a vector: exactly one of its
  dimensions is not 1.
\<close>

definition length_shape :: "nat list \<Rightarrow> nat list" where
  "length_shape s = (if length s = 1 then s else filter (\<lambda>d. d \<noteq> 1) s)"

definition squeezed_length :: "int tensor \<Rightarrow> int tensor" where
  "squeezed_length l = \<lparr>shape = length_shape (shape l), data = data l\<rparr>"

definition ctc_ranks_ok :: "real tensor \<Rightarrow> int tensor \<Rightarrow> int tensor \<Rightarrow> int tensor \<Rightarrow> bool" where
  "ctc_ranks_ok logits labels input_length label_length =
     (length (shape labels) = 2 \<and> length (shape logits) = 3 \<and>
      length (length_shape (shape input_length)) = 1 \<and>
      length (length_shape (shape label_length)) = 1)"

text \<open>
  What the framework's CTC operator checks of its arguments before it computes the
  loss \<open>loss\<close>: labels, logits and both length vectors are of one batch size.
\<close>

definition batch_checked ::
  "(int tensor \<Rightarrow> real tensor \<Rightarrow> int tensor \<Rightarrow> int tensor \<Rightarrow> bool \<Rightarrow> int \<Rightarrow> real tensor) \<Rightarrow>
   int tensor \<Rightarrow> real tensor \<Rightarrow> int tensor \<Rightarrow> int tensor \<Rightarrow> bool \<Rightarrow> int \<Rightarrow> error + real tensor" where
  "batch_checked loss labels logits label_length logit_length time_major blank =
     (if hd (shape labels) = hd (shape logits) \<and> shape label_length = [hd (shape logits)] \<and>
         shape logit_length = [hd (shape logits)]
      then Inr (loss labels logits label_length logit_length time_major blank)
      else Inl InvalidArgument)"

text \<open>
  What \<^verbatim>\<open>tf.contrib.seq2seq.sequence_loss\<close> checks of its \<^verbatim>\<open>weights\<close> before it computes
  the loss \<open>loss\<close>: they are a tensor of element type \<open>float\<close>. The operator multiplies
  the \<open>float32\<close> cross-entropy of every token by its weight, and the framework's
  product of tensors of two element types raises; a Python number is not a tensor of
  shape \<open>(batch_size, sequence_length)\<close>.
\<close>

definition float_weighted ::
  "(real tensor \<Rightarrow> int tensor \<Rightarrow> real tensor \<Rightarrow> real tensor) \<Rightarrow>
   real tensor \<Rightarrow> int tensor \<Rightarrow> 'm weights \<Rightarrow> error + real tensor" where
  "float_weighted loss logits targets weights =
     (case weights of
        FloatTensor w \<Rightarrow> Inr (loss logits targets w)
      | IntTensor w \<Rightarrow> Inl TypeError
      | MaskTensor w \<Rightarrow> Inl TypeError
      | PyFloat c \<Rightarrow> Inl InvalidArgument)"

text \<open>
  The labels \<^verbatim>\<open>cross_entropy\<close> hands to the operator, in the words of its
  description: one-hot encoded when the rank of the logits exceeds the rank of the
  labels by exactly 1, unchanged otherwise.
\<close>

definition encoded_labels :: "real tensor \<Rightarrow> int tensor \<Rightarrow> int tensor" where
  "encoded_labels logits labels =
     (if rank logits = Suc (rank labels) then one_hot labels (last (shape logits)) else labels)"

text \<open>
  The cosine of the angle between example \<open>i\<close> of the embedding and class \<open>j\<close> of the
  weights: the product of the row-normalised embedding and the column-normalised
  weights, for an embedding matrix \<open>x\<close> and a weight matrix \<open>w\<close>.
\<close>

definition row_norm :: "real tensor \<Rightarrow> nat \<Rightarrow> real" where
  "row_norm x i = sqrt (\<Sum>k<shape x ! 1. (entry x [i, k])\<^sup>2)"

definition col_norm :: "real tensor \<Rightarrow> nat \<Rightarrow> real" where
  "col_norm w j = sqrt (\<Sum>k<shape w ! 0. (entry w [k, j])\<^sup>2)"

definition cos_theta :: "real tensor \<Rightarrow> real tensor \<Rightarrow> nat \<Rightarrow> nat \<Rightarrow> real" where
  "cos_theta x w i j =
     (\<Sum>k<shape x ! 1. (entry x [i, k] / row_norm x i) * (entry w [k, j] / col_norm w j))"

definition theta :: "real tensor \<Rightarrow> real tensor \<Rightarrow> nat \<Rightarrow> nat \<Rightarrow> real" where
  "theta x w i j = arccos (cos_theta x w i j)"

text \<open>
  The ArcFace value for an angle \<open>t\<close> between an example and a class: \<open>s * cos t\<close> at a
  class that is not the target; at the target class \<open>s * cos (t + m)\<close>, written with
  the addition theorem, unless \<open>limit_to_pi\<close> holds and \<open>cos t \<le> cos (pi - m)\<close>, where it
  is \<open>s * (cos t - m * sin m)\<close>.
\<close>

definition margin_logit :: "real \<Rightarrow> real \<Rightarrow> bool \<Rightarrow> real \<Rightarrow> bool \<Rightarrow> real" where
  "margin_logit s m limit_to_pi t target =
     (if \<not> target then s * cos t
      else if limit_to_pi \<and> cos t \<le> cos (pi - m) then s * (cos t - m * sin m)
      else s * (cos t * cos m - sin t * sin m))"





section \<open>Properties of the tensor operators\<close>

lemma length_indices: "length (indices s) = prod_list s"
proof (induction s)
  case Nil
  show ?case by simp
next
  case (Cons d ds)
  have "length (concat (map (\<lambda>i. map ((#) i) (indices ds)) [0..<d])) = d * prod_list ds"
    by (induction d) (simp_all add: Cons.IH)
  then show ?case by simp
qed

lemma concat_blocks_nth:
  assumes "\<And>i. i < d \<Longrightarrow> length (f i) = n" and "i < d" and "j < n"
  shows "concat (map f [0..<d]) ! (i * n + j) = f i ! j"
  using assms
proof (induction d)
  case 0
  then show ?case by simp
next
  case (Suc d)
  have len: "length (concat (map f [0..<d])) = d * n"
    using Suc.prems(1) by (induction d) simp_all
  show ?case
  proof (cases "i < d")
    case True
    have "i * n + j < d * n"
    proof -
      have "i * n + j < i * n + n" using Suc.prems(3) by simp
      also have "\<dots> = Suc i * n" by simp
      also have "\<dots> \<le> d * n" using True by (intro mult_le_mono1) simp
      finally show ?thesis .
    qed
    then show ?thesis
      using Suc.IH [OF _ True Suc.prems(3)] Suc.prems(1) len by (simp add: nth_append)
  next
    case False
    then have "i = d" using Suc.prems(2) by simp
    then show ?thesis using len by (simp add: nth_append)
  qed
qed

lemma offset_less: "valid s idx \<Longrightarrow> offset s idx < prod_list s"
proof (induction s arbitrary: idx)
  case Nil
  then show ?case by (simp add: valid_def)
next
  case (Cons d ds)
  then obtain i js where idx: "idx = i # js" and i: "i < d" and js: "valid ds js"
    by (auto simp: valid_def list_all2_Cons2)
  have "i * prod_list ds + offset ds js < i * prod_list ds + prod_list ds"
    using Cons.IH [OF js] by simp
  also have "\<dots> = Suc i * prod_list ds" by simp
  also have "\<dots> \<le> d * prod_list ds" using i by (intro mult_le_mono1) simp
  finally show ?case by (simp add: idx)
qed

lemma indices_nth: "valid s idx \<Longrightarrow> indices s ! offset s idx = idx"
proof (induction s arbitrary: idx)
  case Nil
  then show ?case by (simp add: valid_def)
next
  case (Cons d ds)
  then obtain i js where idx: "idx = i # js" and i: "i < d" and js: "valid ds js"
    by (auto simp: valid_def list_all2_Cons2)
  have "concat (map (\<lambda>i. map ((#) i) (indices ds)) [0..<d]) ! (i * prod_list ds + offset ds js)
        = map ((#) i) (indices ds) ! offset ds js"
    by (rule concat_blocks_nth) (simp_all add: length_indices i offset_less js)
  also have "\<dots> = i # js"
    using Cons.IH [OF js] offset_less [OF js] by (simp add: length_indices)
  finally show ?case by (simp add: idx)
qed

lemma set_indices: "set (indices s) = {idx. valid s idx}"
proof (induction s)
  case Nil
  show ?case by (auto simp: valid_def)
next
  case (Cons d ds)
  show ?case
    by (auto simp: Cons.IH valid_def list_all2_Cons2)
qed

lemma entry_tabulate: "valid s idx \<Longrightarrow> entry (tabulate s f) idx = f idx"
  by (simp add: entry_def tabulate_def length_indices offset_less indices_nth)

lemma shape_tabulate: "shape (tabulate s f) = s"
  by (simp add: tabulate_def)


lemma tabulate_cong: "(\<And>idx. valid s idx \<Longrightarrow> f idx = g idx) \<Longrightarrow> tabulate s f = tabulate s g"
  by (simp add: tabulate_def set_indices)

lemma valid_append: "valid s idx \<Longrightarrow> k < d \<Longrightarrow> valid (s @ [d]) (idx @ [k])"
  by (simp add: valid_def list_all2_appendI)

lemma entry_one_hot:
  "valid (shape labels) idx \<Longrightarrow> k < depth \<Longrightarrow>
   entry (one_hot labels depth) (idx @ [k]) = (if entry labels idx = int k then 1 else 0)"
  by (simp add: one_hot_def entry_tabulate valid_append)

lemma shape_one_hot: "shape (one_hot labels depth) = shape labels @ [depth]"
  by (simp add: one_hot_def shape_tabulate)

lemma entry_vector: "shape t = [n] \<Longrightarrow> entry t [i] = data t ! i"
  by (simp add: entry_def)

lemma sum_list_vector:
  "wf t \<Longrightarrow> shape t = [n] \<Longrightarrow> sum_list (data t) = (\<Sum>i<n. entry t [i])"
  by (simp add: wf_def entry_vector sum_list_sum_nth atLeast0LessThan)

subsection \<open>Operators on tabulated tensors and on matrices\<close>

lemma valid_length: "valid s idx \<Longrightarrow> length idx = length s"
  by (simp add: valid_def list_all2_lengthD)

lemma valid_matrix: "valid [a, b] idx \<longleftrightarrow> (\<exists>i j. idx = [i, j] \<and> i < a \<and> j < b)"
  by (auto simp: valid_def list_all2_Cons2)

lemma map_tensor_tabulate: "map_tensor f (tabulate s g) = tabulate s (\<lambda>idx. f (g idx))"
  by (simp add: map_tensor_def tabulate_def)

lemma broadcast_dims_same: "broadcast_dims s s = Some s"
  by (induction s) simp_all

lemma broadcast_shape_same: "broadcast_shape s s = Some s"
  by (simp add: broadcast_shape_def pad_shape_def broadcast_dims_same)

lemma bidx_same: "valid s idx \<Longrightarrow> bidx s idx = idx"
proof -
  assume v: "valid s idx"
  then have "length idx = length s" by (rule valid_length)
  moreover have "map2 (\<lambda>d i. if d = 1 then 0 else i) s idx = idx"
    using v unfolding valid_def
    by (induction idx s rule: list_all2_induct) auto
  ultimately show ?thesis by (simp add: bidx_def)
qed

lemma binop_tabulate:
  "binop f (tabulate s g) (tabulate s h) = Inr (tabulate s (\<lambda>idx. f (g idx) (h idx)))"
  by (auto simp: binop_def shape_tabulate broadcast_shape_same bidx_same entry_tabulate
      intro!: tabulate_cong)

lemma tf_where_tabulate:
  "tf_where (tabulate s c) (tabulate s g) (tabulate s h)
     = Inr (tabulate s (\<lambda>idx. if c idx then g idx else h idx))"
  by (auto simp: tf_where_def shape_tabulate entry_tabulate intro!: tabulate_cong)

lemma data_tabulate: "data (tabulate s f) = map f (indices s)"
  by (simp add: tabulate_def)

lemma tf_sqrt_tabulate:
  "tf_sqrt (tabulate s g) =
     (if \<exists>idx. valid s idx \<and> g idx < 0 then Inl NonFinite
      else Inr (tabulate s (\<lambda>idx. sqrt (g idx))))"
  by (auto simp: tf_sqrt_def data_tabulate list_ex_iff set_indices map_tensor_tabulate)

lemma matmul_matrix:
  "shape a = [B, E] \<Longrightarrow> shape b = [E, N] \<Longrightarrow>
   matmul a b = Inr (tabulate [B, N] (\<lambda>idx. \<Sum>k<E. entry a [idx ! 0, k] * entry b [k, idx ! 1]))"
  by (simp add: matmul_def rank_def)

lemma tf_norm_columns:
  "shape w = [E, N] \<Longrightarrow>
   tf_norm 0 w = Inr (tabulate [1, N] (\<lambda>idx. sqrt (\<Sum>k<E. (entry w [k, idx ! 1])\<^sup>2)))"
  by (auto simp: tf_norm_def rank_def valid_matrix intro!: tabulate_cong)

lemma tf_norm_rows:
  "shape x = [B, E] \<Longrightarrow>
   tf_norm 1 x = Inr (tabulate [B, 1] (\<lambda>idx. sqrt (\<Sum>k<E. (entry x [idx ! 0, k])\<^sup>2)))"
  by (auto simp: tf_norm_def rank_def valid_matrix intro!: tabulate_cong)

lemma broadcast_shape_rows: "broadcast_shape [B, E] [B, 1] = Some [B, E]"
  by (simp add: broadcast_shape_def pad_shape_def)

lemma broadcast_shape_columns: "broadcast_shape [E, N] [1, N] = Some [E, N]"
  by (simp add: broadcast_shape_def pad_shape_def)

lemma bidx_rows: "i < B \<Longrightarrow> bidx [B, 1] [i, k] = [i, 0]"
  by (auto simp: bidx_def)

lemma bidx_columns: "j < N \<Longrightarrow> bidx [1, N] [k, j] = [0, j]"
  by (auto simp: bidx_def)

lemma tf_div_rows:
  assumes "shape x = [B, E]"
  shows "tf_div x (tabulate [B, 1] h) =
     (if \<exists>i<B. 0 < E \<and> h [i, 0] = 0 then Inl NonFinite
      else Inr (tabulate [B, E] (\<lambda>idx. entry x idx / h [idx ! 0, 0])))"
proof -
  let ?n = "tabulate [B, 1] h"
  have bs: "broadcast_shape (shape x) (shape ?n) = Some [B, E]"
    by (simp only: assms shape_tabulate broadcast_shape_rows)
  have en: "entry ?n (bidx (shape ?n) [i, k]) = h [i, 0]" if "i < B" for i k
    using that by (simp only: shape_tabulate bidx_rows) (simp add: entry_tabulate valid_matrix)
  have ex: "list_ex (\<lambda>idx. entry ?n (bidx (shape ?n) idx) = 0) (indices [B, E])
            \<longleftrightarrow> (\<exists>i<B. 0 < E \<and> h [i, 0] = 0)"
  proof
    assume "list_ex (\<lambda>idx. entry ?n (bidx (shape ?n) idx) = 0) (indices [B, E])"
    then obtain i k where "i < B" "k < E" "entry ?n (bidx (shape ?n) [i, k]) = 0"
      unfolding list_ex_iff set_indices by (auto simp: valid_matrix)
    then show "\<exists>i<B. 0 < E \<and> h [i, 0] = 0"
      using en [of i k] by auto
  next
    assume "\<exists>i<B. 0 < E \<and> h [i, 0] = 0"
    then obtain i where i: "i < B" "0 < E" "h [i, 0] = 0"
      by blast
    then have "valid [B, E] [i, 0]" "entry ?n (bidx (shape ?n) [i, 0]) = 0"
      using en [of i 0] by (simp_all add: valid_matrix)
    then show "list_ex (\<lambda>idx. entry ?n (bidx (shape ?n) idx) = 0) (indices [B, E])"
      unfolding list_ex_iff set_indices by blast
  qed
  have bin: "binop (/) x ?n = Inr (tabulate [B, E] (\<lambda>idx. entry x idx / h [idx ! 0, 0]))"
    unfolding binop_def bs option.case
    by (rule arg_cong [where f = Inr], rule tabulate_cong)
       (auto simp: valid_matrix en [unfolded One_nat_def] assms bidx_same)
  show ?thesis
    unfolding tf_div_def bs option.case ex bin by simp
qed

lemma tf_div_columns:
  assumes "shape w = [E, N]"
  shows "tf_div w (tabulate [1, N] h) =
     (if \<exists>j<N. 0 < E \<and> h [0, j] = 0 then Inl NonFinite
      else Inr (tabulate [E, N] (\<lambda>idx. entry w idx / h [0, idx ! 1])))"
proof -
  let ?n = "tabulate [1, N] h"
  have bs: "broadcast_shape (shape w) (shape ?n) = Some [E, N]"
    by (simp only: assms shape_tabulate broadcast_shape_columns)
  have en: "entry ?n (bidx (shape ?n) [k, j]) = h [0, j]" if "k < E" "j < N" for k j
    using that by (simp only: shape_tabulate bidx_columns) (simp add: entry_tabulate valid_matrix)
  have ex: "list_ex (\<lambda>idx. entry ?n (bidx (shape ?n) idx) = 0) (indices [E, N])
            \<longleftrightarrow> (\<exists>j<N. 0 < E \<and> h [0, j] = 0)"
  proof
    assume "list_ex (\<lambda>idx. entry ?n (bidx (shape ?n) idx) = 0) (indices [E, N])"
    then obtain k j where "k < E" "j < N" "entry ?n (bidx (shape ?n) [k, j]) = 0"
      unfolding list_ex_iff set_indices by (auto simp: valid_matrix)
    then show "\<exists>j<N. 0 < E \<and> h [0, j] = 0"
      using en [of k j] by auto
  next
    assume "\<exists>j<N. 0 < E \<and> h [0, j] = 0"
    then obtain j where j: "j < N" "0 < E" "h [0, j] = 0"
      by blast
    then have "valid [E, N] [0, j]" "entry ?n (bidx (shape ?n) [0, j]) = 0"
      using en [of 0 j] by (simp_all add: valid_matrix)
    then show "list_ex (\<lambda>idx. entry ?n (bidx (shape ?n) idx) = 0) (indices [E, N])"
      unfolding list_ex_iff set_indices by blast
  qed
  have bin: "binop (/) w ?n = Inr (tabulate [E, N] (\<lambda>idx. entry w idx / h [0, idx ! 1]))"
    unfolding binop_def bs option.case
    by (rule arg_cong [where f = Inr], rule tabulate_cong)
       (auto simp: valid_matrix en [unfolded One_nat_def] assms bidx_same)
  show ?thesis
    unfolding tf_div_def bs option.case ex bin by simp
qed

lemma one_hot_vector:
  "shape labels = [B] \<Longrightarrow>
   one_hot labels N = tabulate [B, N] (\<lambda>idx. if entry labels [idx ! 0] = int (idx ! 1) then 1 else 0)"
  by (auto simp: one_hot_def valid_matrix intro!: tabulate_cong)

subsection \<open>The cosine matrix and the output of \<^verbatim>\<open>arcface_loss\<close>\<close>

lemma unit_dot_le:
  fixes a b :: "nat \<Rightarrow> real"
  assumes "(\<Sum>k<n. (a k)\<^sup>2) = 1" and "(\<Sum>k<n. (b k)\<^sup>2) = 1"
  shows "\<bar>\<Sum>k<n. a k * b k\<bar> \<le> 1"
proof -
  have "0 \<le> (\<Sum>k<n. (a k - b k)\<^sup>2)"
    by (simp add: sum_nonneg)
  also have "(\<Sum>k<n. (a k - b k)\<^sup>2) = (\<Sum>k<n. (a k)\<^sup>2) + (\<Sum>k<n. (b k)\<^sup>2) - 2 * (\<Sum>k<n. a k * b k)"
    by (simp add: power2_diff sum.distrib sum_subtractf sum_distrib_left mult.assoc)
  finally have up: "(\<Sum>k<n. a k * b k) \<le> 1"
    using assms by simp
  have "0 \<le> (\<Sum>k<n. (a k + b k)\<^sup>2)"
    by (simp add: sum_nonneg)
  also have "(\<Sum>k<n. (a k + b k)\<^sup>2) = (\<Sum>k<n. (a k)\<^sup>2) + (\<Sum>k<n. (b k)\<^sup>2) + 2 * (\<Sum>k<n. a k * b k)"
    by (simp add: power2_sum sum.distrib sum_distrib_left mult.assoc)
  finally have lo: "- 1 \<le> (\<Sum>k<n. a k * b k)"
    using assms by simp
  from up lo show ?thesis by simp
qed

lemma normalised_unit:
  fixes a :: "nat \<Rightarrow> real"
  assumes "sqrt (\<Sum>k<n. (a k)\<^sup>2) \<noteq> 0"
  shows "(\<Sum>k<n. (a k / sqrt (\<Sum>k<n. (a k)\<^sup>2))\<^sup>2) = 1"
proof -
  let ?q = "\<Sum>k<n. (a k)\<^sup>2"
  have q: "0 \<le> ?q" by (simp add: sum_nonneg)
  have nz: "?q \<noteq> 0" using assms by auto
  have "(\<Sum>k<n. (a k / sqrt ?q)\<^sup>2) = (\<Sum>k<n. (a k)\<^sup>2 / ?q)"
    using q by (simp add: power_divide)
  also have "\<dots> = ?q / ?q"
    by (simp only: sum_divide_distrib)
  also have "\<dots> = 1"
    using nz by simp
  finally show ?thesis .
qed

lemma cos_theta_bounded:
  assumes "shape x = [B, E]" and "shape w = [E, N]"
    and "row_norm x i \<noteq> 0" and "col_norm w j \<noteq> 0"
  shows "\<bar>cos_theta x w i j\<bar> \<le> 1"
  unfolding cos_theta_def
  using assms normalised_unit [of "\<lambda>k. entry x [i, k]" E] normalised_unit [of "\<lambda>k. entry w [k, j]" E]
  by (intro unit_dot_le) (simp_all add: row_norm_def col_norm_def)


lemma normalised_embedding:
  assumes "shape x = [B, E]" and "\<forall>i<B. row_norm x i \<noteq> 0"
  shows "\<exists>n. tf_norm 1 x = Inr n \<and>
             tf_div x n = Inr (tabulate [B, E] (\<lambda>idx. entry x idx / row_norm x (idx ! 0)))"
proof -
  let ?h = "\<lambda>idx. sqrt (\<Sum>k<E. (entry x [idx ! 0, k])\<^sup>2)"
  have h: "?h [i, 0] = row_norm x i" for i
    by (simp add: row_norm_def assms(1))
  have n: "tf_norm 1 x = Inr (tabulate [B, 1] ?h)"
    by (rule tf_norm_rows [OF assms(1)])
  have "tf_div x (tabulate [B, 1] ?h) = Inr (tabulate [B, E] (\<lambda>idx. entry x idx / ?h [idx ! 0, 0]))"
    unfolding tf_div_rows [OF assms(1)] using assms(2) h by auto
  also have "tabulate [B, E] (\<lambda>idx. entry x idx / ?h [idx ! 0, 0])
             = tabulate [B, E] (\<lambda>idx. entry x idx / row_norm x (idx ! 0))"
    by (rule tabulate_cong) (simp add: row_norm_def assms(1))
  finally show ?thesis using n by blast
qed

lemma normalised_weights:
  assumes "shape w = [E, N]" and "\<forall>j<N. col_norm w j \<noteq> 0"
  shows "\<exists>n. tf_norm 0 w = Inr n \<and>
             tf_div w n = Inr (tabulate [E, N] (\<lambda>idx. entry w idx / col_norm w (idx ! 1)))"
proof -
  let ?h = "\<lambda>idx. sqrt (\<Sum>k<E. (entry w [k, idx ! 1])\<^sup>2)"
  have h: "?h [0, j] = col_norm w j" for j
    by (simp add: col_norm_def assms(1))
  have n: "tf_norm 0 w = Inr (tabulate [1, N] ?h)"
    by (rule tf_norm_columns [OF assms(1)])
  have "tf_div w (tabulate [1, N] ?h) = Inr (tabulate [E, N] (\<lambda>idx. entry w idx / ?h [0, idx ! 1]))"
    unfolding tf_div_columns [OF assms(1)] using assms(2) h by auto
  also have "tabulate [E, N] (\<lambda>idx. entry w idx / ?h [0, idx ! 1])
             = tabulate [E, N] (\<lambda>idx. entry w idx / col_norm w (idx ! 1))"
    by (rule tabulate_cong) (simp add: col_norm_def assms(1))
  finally show ?thesis using n by blast
qed

lemma cos_t_matrix:
  assumes "shape x = [B, E]" and "shape w = [E, N]"
  shows "matmul (tabulate [B, E] (\<lambda>idx. entry x idx / row_norm x (idx ! 0)))
                (tabulate [E, N] (\<lambda>idx. entry w idx / col_norm w (idx ! 1)))
         = Inr (tabulate [B, N] (\<lambda>idx. cos_theta x w (idx ! 0) (idx ! 1)))"
proof -
  let ?e = "tabulate [B, E] (\<lambda>idx. entry x idx / row_norm x (idx ! 0))"
  let ?w = "tabulate [E, N] (\<lambda>idx. entry w idx / col_norm w (idx ! 1))"
  have "matmul ?e ?w = Inr (tabulate [B, N] (\<lambda>idx. \<Sum>k<E. entry ?e [idx ! 0, k] * entry ?w [k, idx ! 1]))"
    by (rule matmul_matrix) (simp_all add: shape_tabulate)
  also have "tabulate [B, N] (\<lambda>idx. \<Sum>k<E. entry ?e [idx ! 0, k] * entry ?w [k, idx ! 1])
             = tabulate [B, N] (\<lambda>idx. cos_theta x w (idx ! 0) (idx ! 1))"
  proof (rule tabulate_cong)
    fix idx assume "valid [B, N] idx"
    then obtain i j where idx: "idx = [i, j]" "i < B" "j < N"
      by (auto simp: valid_matrix)
    have "(\<Sum>k<E. entry ?e [i, k] * entry ?w [k, j])
          = (\<Sum>k<E. (entry x [i, k] / row_norm x i) * (entry w [k, j] / col_norm w j))"
      using idx by (intro sum.cong) (simp_all add: entry_tabulate valid_matrix)
    then show "(\<Sum>k<E. entry ?e [idx ! 0, k] * entry ?w [k, idx ! 1])
               = cos_theta x w (idx ! 0) (idx ! 1)"
      by (simp add: idx cos_theta_def assms(1))
  qed
  finally show ?thesis .
qed


lemma cos_theta_arccos:
  assumes "shape x = [B, E]" and "shape w = [E, N]"
    and "row_norm x i \<noteq> 0" and "col_norm w j \<noteq> 0"
  shows "cos (theta x w i j) = cos_theta x w i j"
    and "sin (theta x w i j) = sqrt (1 - (cos_theta x w i j)\<^sup>2)"
  using cos_theta_bounded [OF assms] by (simp_all add: theta_def sin_arccos abs_le_iff)

lemma arcface_output_matrix:
  assumes x: "shape x = [B, E]" and w: "shape w = [E, N]" and l: "shape labels = [B]"
    and rn: "\<forall>i<B. row_norm x i \<noteq> 0" and cn: "\<forall>j<N. col_norm w j \<noteq> 0"
  shows "arcface_output (tabulate [B, E] (\<lambda>idx. entry x idx / row_norm x (idx ! 0)))
           w labels N s m limit_to_pi
         = Inr (tabulate [B, N]
                 (\<lambda>idx. margin_logit s m limit_to_pi (theta x w (idx ! 0) (idx ! 1))
                           (entry labels [idx ! 0] = int (idx ! 1))))"
proof -
  let ?C = "\<lambda>idx. cos_theta x w (idx ! 0) (idx ! 1)"
  obtain n where n: "tf_norm 0 w = Inr n"
    "tf_div w n = Inr (tabulate [E, N] (\<lambda>idx. entry w idx / col_norm w (idx ! 1)))"
    using normalised_weights [OF w cn] by blast
  have bounded: "\<not> (\<exists>idx. valid [B, N] idx \<and> 1 - (?C idx)\<^sup>2 < 0)"
  proof
    assume "\<exists>idx. valid [B, N] idx \<and> 1 - (?C idx)\<^sup>2 < 0"
    then obtain i j where ij: "i < B" "j < N" "1 - (cos_theta x w i j)\<^sup>2 < 0"
      by (auto simp: valid_matrix)
    have "\<bar>cos_theta x w i j\<bar> \<le> 1"
      using cos_theta_bounded [OF x w] rn cn ij by blast
    then have "(cos_theta x w i j)\<^sup>2 \<le> 1"
      by (simp add: abs_square_le_1)
    with ij(3) show False by simp
  qed
  have sq: "tf_sqrt (tabulate [B, N] (\<lambda>idx. 1 - (?C idx)\<^sup>2))
            = Inr (tabulate [B, N] (\<lambda>idx. sqrt (1 - (?C idx)\<^sup>2)))"
    unfolding tf_sqrt_tabulate using bounded by (simp only: if_False)
  have mask: "(one_hot labels N :: real tensor)
              = tabulate [B, N] (\<lambda>idx. if entry labels [idx ! 0] = int (idx ! 1) then 1 else 0)"
    by (rule one_hot_vector [OF l])
  have "arcface_output (tabulate [B, E] (\<lambda>idx. entry x idx / row_norm x (idx ! 0)))
           w labels N s m limit_to_pi
        = Inr (tabulate [B, N]
            (\<lambda>idx. s * ?C idx * (1 - (if entry labels [idx ! 0] = int (idx ! 1) then 1 else 0))
               + (if limit_to_pi
                  then (if max (?C idx - cos (pi - m)) 0 \<noteq> 0
                        then s * (?C idx * cos m - sqrt (1 - (?C idx)\<^sup>2) * sin m)
                        else s * (?C idx - sin m * m))
                  else s * (?C idx * cos m - sqrt (1 - (?C idx)\<^sup>2) * sin m))
                 * (if entry labels [idx ! 0] = int (idx ! 1) then 1 else 0)))"
    unfolding arcface_output_def Let_def n and_then_def sum.case cos_t_matrix [OF x w]
      map_tensor_tabulate sq mask relu_def cast_bool_def tf_multiply_def tf_add_def
      binop_tabulate tf_where_tabulate
    by (cases limit_to_pi) (simp_all add: binop_tabulate tf_where_tabulate)
  also have "tabulate [B, N]
            (\<lambda>idx. s * ?C idx * (1 - (if entry labels [idx ! 0] = int (idx ! 1) then 1 else 0))
               + (if limit_to_pi
                  then (if max (?C idx - cos (pi - m)) 0 \<noteq> 0
                        then s * (?C idx * cos m - sqrt (1 - (?C idx)\<^sup>2) * sin m)
                        else s * (?C idx - sin m * m))
                  else s * (?C idx * cos m - sqrt (1 - (?C idx)\<^sup>2) * sin m))
                 * (if entry labels [idx ! 0] = int (idx ! 1) then 1 else 0))
          = tabulate [B, N]
                 (\<lambda>idx. margin_logit s m limit_to_pi (theta x w (idx ! 0) (idx ! 1))
                           (entry labels [idx ! 0] = int (idx ! 1)))"
  proof (rule tabulate_cong)
    fix idx assume "valid [B, N] idx"
    then obtain i j where idx: "idx = [i, j]" "i < B" "j < N"
      by (auto simp: valid_matrix)
    have t: "cos (theta x w i j) = cos_theta x w i j"
      "sin (theta x w i j) = sqrt (1 - (cos_theta x w i j)\<^sup>2)"
      using cos_theta_arccos [OF x w] rn cn idx by blast+
    show "s * ?C idx * (1 - (if entry labels [idx ! 0] = int (idx ! 1) then 1 else 0))
               + (if limit_to_pi
                  then (if max (?C idx - cos (pi - m)) 0 \<noteq> 0
                        then s * (?C idx * cos m - sqrt (1 - (?C idx)\<^sup>2) * sin m)
                        else s * (?C idx - sin m * m))
                  else s * (?C idx * cos m - sqrt (1 - (?C idx)\<^sup>2) * sin m))
                 * (if entry labels [idx ! 0] = int (idx ! 1) then 1 else 0)
          = margin_logit s m limit_to_pi (theta x w (idx ! 0) (idx ! 1))
                           (entry labels [idx ! 0] = int (idx ! 1))"
      unfolding idx margin_logit_def by (simp add: t max_def mult.commute)
  qed
  finally show ?thesis .
qed

lemma arcface_loss_supplied:
  assumes "shape x = [B, E]" and "shape w = [E, N]" and "shape labels = [B]"
    and "\<forall>i<B. row_norm x i \<noteq> 0" and "\<forall>j<N. col_norm w j \<noteq> 0"
  shows "arcface_loss xavier_initializer g x labels N (Some w) s m limit_to_pi
         = (Inr (tabulate [B, N]
                   (\<lambda>idx. margin_logit s m limit_to_pi (theta x w (idx ! 0) (idx ! 1))
                             (entry labels [idx ! 0] = int (idx ! 1)))), g)"
proof -
  obtain n where n: "tf_norm 1 x = Inr n"
    "tf_div x n = Inr (tabulate [B, E] (\<lambda>idx. entry x idx / row_norm x (idx ! 0)))"
    using normalised_embedding [OF assms(1,4)] by blast
  show ?thesis
    unfolding arcface_loss_def n sum.case Let_def option.case prod.case and_then_def
      arcface_output_matrix [OF assms] ..
qed

lemma sum_two: "(\<Sum>k<(2::nat). f k) = f 0 + (f 1 :: real)"
  by (simp add: lessThan_Suc numeral_2_eq_2)

subsection \<open>Scaling and normalisation\<close>



lemma broadcast_dims_compatible:
  "broadcast_dims as bs = Some r \<Longrightarrow>
   list_all2 (\<lambda>a d. a = 1 \<or> a = d) as r \<and> list_all2 (\<lambda>b d. b = 1 \<or> b = d) bs r"
  by (induction as bs arbitrary: r rule: broadcast_dims.induct)
     (auto split: option.splits if_splits)

lemma valid_bidx_padded:
  assumes c: "list_all2 (\<lambda>a d. a = 1 \<or> a = d) (replicate k 1 @ s) r" and v: "valid r idx"
  shows "valid s (bidx s idx)"
proof -
  have lr: "length r = k + length s"
    using c by (auto dest: list_all2_lengthD)
  have li: "length idx = k + length s"
    using v lr by (auto simp: valid_def dest: list_all2_lengthD)
  have c': "list_all2 (\<lambda>a d. a = 1 \<or> a = d) s (drop k r)"
    using list_all2_dropI [OF c, of k] by simp
  have v': "list_all2 (<) (drop k idx) (drop k r)"
    using v unfolding valid_def by (rule list_all2_dropI)
  have "list_all2 (<) (map2 (\<lambda>d i. if d = 1 then 0 else i) s (drop k idx)) s"
    using c' v' lr li
    by (auto simp: list_all2_conv_all_nth)
  then show ?thesis
    by (simp add: valid_def bidx_def li)
qed

lemma valid_bidx:
  assumes "broadcast_shape s1 s2 = Some r" and "valid r idx"
  shows "valid s1 (bidx s1 idx)" and "valid s2 (bidx s2 idx)"
proof -
  let ?n = "max (length s1) (length s2)"
  have c: "list_all2 (\<lambda>a d. a = 1 \<or> a = d) (replicate (?n - length s1) 1 @ s1) r"
          "list_all2 (\<lambda>a d. a = 1 \<or> a = d) (replicate (?n - length s2) 1 @ s2) r"
    using broadcast_dims_compatible [of "pad_shape ?n s1" "pad_shape ?n s2" r] assms(1)
    by (simp_all add: broadcast_shape_def pad_shape_def Let_def)
  show "valid s1 (bidx s1 idx)"
    by (rule valid_bidx_padded [OF c(1) assms(2)])
  show "valid s2 (bidx s2 idx)"
    by (rule valid_bidx_padded [OF c(2) assms(2)])
qed








lemma arcface_loss_Some:
  "arcface_loss xavier_initializer g embedding labels out_num (Some w) s m limit_to_pi
   = (case tf_norm 1 embedding of
        Inl e \<Rightarrow> (Inl e, g)
      | Inr n \<Rightarrow>
          (and_then (tf_div embedding n) (\<lambda>e. arcface_output e w labels out_num s m limit_to_pi), g))"
  by (simp add: arcface_loss_def Let_def and_then_def split: sum.splits)



lemma binop_broadcast:
  assumes "broadcast_shape s1 s2 = Some r"
  shows "binop f (tabulate s1 g) (tabulate s2 h)
         = Inr (tabulate r (\<lambda>idx. f (g (bidx s1 idx)) (h (bidx s2 idx))))"
  unfolding binop_def shape_tabulate assms option.case
  by (rule arg_cong [where f = Inr], rule tabulate_cong)
     (simp add: entry_tabulate valid_bidx [OF assms])

lemma arcface_output_shape:
  assumes x: "shape x = [B, E]" and w: "shape w = [E, N]"
    and l: "broadcast_shape [B, N] (shape labels @ [N]) = Some r"
    and rn: "\<forall>i<B. row_norm x i \<noteq> 0" and cn: "\<forall>j<N. col_norm w j \<noteq> 0"
  shows "\<exists>out. arcface_output (tabulate [B, E] (\<lambda>idx. entry x idx / row_norm x (idx ! 0)))
                  w labels N s m limit_to_pi = Inr out \<and> shape out = r"
proof -
  let ?C = "\<lambda>idx. cos_theta x w (idx ! 0) (idx ! 1)"
  obtain n where n: "tf_norm 0 w = Inr n"
    "tf_div w n = Inr (tabulate [E, N] (\<lambda>idx. entry w idx / col_norm w (idx ! 1)))"
    using normalised_weights [OF w cn] by blast
  have bounded: "\<not> (\<exists>idx. valid [B, N] idx \<and> 1 - (?C idx)\<^sup>2 < 0)"
  proof
    assume "\<exists>idx. valid [B, N] idx \<and> 1 - (?C idx)\<^sup>2 < 0"
    then obtain i j where ij: "i < B" "j < N" "1 - (cos_theta x w i j)\<^sup>2 < 0"
      by (auto simp: valid_matrix)
    have "\<bar>cos_theta x w i j\<bar> \<le> 1"
      using cos_theta_bounded [OF x w] rn cn ij by blast
    then have "(cos_theta x w i j)\<^sup>2 \<le> 1"
      by (simp add: abs_square_le_1)
    with ij(3) show False by simp
  qed
  have sq: "tf_sqrt (tabulate [B, N] (\<lambda>idx. 1 - (?C idx)\<^sup>2))
            = Inr (tabulate [B, N] (\<lambda>idx. sqrt (1 - (?C idx)\<^sup>2)))"
    unfolding tf_sqrt_tabulate using bounded by (simp only: if_False)
  show ?thesis
    unfolding arcface_output_def Let_def n and_then_def sum.case cos_t_matrix [OF x w]
      map_tensor_tabulate sq relu_def cast_bool_def tf_multiply_def tf_add_def one_hot_def
      binop_tabulate tf_where_tabulate
    by (cases limit_to_pi)
       (simp_all add: binop_tabulate tf_where_tabulate binop_broadcast [OF l] shape_tabulate)
qed

lemma arcface_loss_column_labels:
  assumes "shape embedding = [B, E]" and "shape weights = [E, out_num]" and "shape labels = [B, 1]"
    and "\<forall>i<B. row_norm embedding i \<noteq> 0" and "\<forall>j<out_num. col_norm weights j \<noteq> 0"
  shows "\<exists>out. arcface_loss xavier_initializer g embedding labels out_num (Some weights) s m limit_to_pi
                = (Inr out, g) \<and> shape out = [B, B, out_num]"
proof -
  obtain n where n: "tf_norm 1 embedding = Inr n"
    "tf_div embedding n = Inr (tabulate [B, E] (\<lambda>idx. entry embedding idx / row_norm embedding (idx ! 0)))"
    using normalised_embedding [OF assms(1,4)] by blast
  have "broadcast_shape [B, out_num] (shape labels @ [out_num]) = Some [B, B, out_num]"
    by (simp add: assms(3) broadcast_shape_def pad_shape_def)
  from arcface_output_shape [OF assms(1,2) this assms(4,5)] show ?thesis
    unfolding arcface_loss_Some n sum.case and_then_def by blast
qed

lemma sqrt_25: "sqrt 25 = (5 :: real)"
  by (rule real_sqrt_unique) simp_all

lemma example_norms:
  "row_norm \<lparr>shape = [1, 2], data = [3, 4]\<rparr> 0 = 5"
  "col_norm \<lparr>shape = [2, 2], data = [1, 0, 0, 1]\<rparr> 0 = 1"
  "col_norm \<lparr>shape = [2, 2], data = [1, 0, 0, 1]\<rparr> 1 = 1"
  by (simp_all add: row_norm_def col_norm_def entry_def sum_two sqrt_25)

section \<open>\<^verbatim>\<open>ctc_lambda_loss\<close>\<close>

lemma squeezed_length_eq: "(if rank l = 1 then l else squeeze l) = squeezed_length l"
  by (simp add: rank_def squeeze_def squeezed_length_def length_shape_def)

lemma ctc_lambda_loss_cases:
  "ctc_lambda_loss ctc_loss_v2 logits labels input_length label_length blank_index =
     (if ctc_ranks_ok logits labels input_length label_length
      then and_then (ctc_loss_v2 labels logits (squeezed_length label_length)
                       (squeezed_length input_length) False blank_index) set_shape_vector
      else Inl AssertionFailed)"
  unfolding ctc_lambda_loss_def Let_def squeezed_length_eq
  by (simp add: ctc_ranks_ok_def rank_def squeezed_length_def)

text \<open>
  Claim C10, as stated, for logits of two examples and labels of three: every rank
  precondition holds, the CTC operator is reached, finds the batch sizes in
  disagreement and raises, and no loss is produced.
\<close>

theorem ctc_lambda_loss_operator_raises:
  "ctc_ranks_ok \<lparr>shape = [2, 1, 2], data = [0, 0, 0, 0]\<rparr> \<lparr>shape = [3, 1], data = [1, 1, 1]\<rparr>
      \<lparr>shape = [2, 1], data = [1, 1]\<rparr> \<lparr>shape = [2, 1], data = [1, 1]\<rparr> \<and>
   ctc_lambda_loss
      (batch_checked (\<lambda>labels logits label_length logit_length time_major blank.
         tabulate [hd (shape logits)] (\<lambda>idx. 0)))
      \<lparr>shape = [2, 1, 2], data = [0, 0, 0, 0]\<rparr> \<lparr>shape = [3, 1], data = [1, 1, 1]\<rparr>
      \<lparr>shape = [2, 1], data = [1, 1]\<rparr> \<lparr>shape = [2, 1], data = [1, 1]\<rparr> 0
     = Inl InvalidArgument"
  by (simp add: ctc_lambda_loss_cases ctc_ranks_ok_def length_shape_def squeezed_length_def
      batch_checked_def and_then_def)

text \<open>
  Claim C10, amended. \<^verbatim>\<open>ctc_lambda_loss\<close> fails one of its own rank assertions, whatever
  the CTC operator is and without reaching it, exactly when a rank precondition is
  violated: \<open>labels\<close> of rank 2, \<open>logits\<close> of rank 3, and \<open>input_length\<close> and
  \<open>label_length\<close> vectors once their dimensions of size 1 are dropped (which the function
  does when their rank is not 1). Under the preconditions it calls the operator on the
  squeezed lengths and returns what the operator does: its error when it raises, its
  loss when the loss is a vector.
\<close>

theorem ctc_lambda_loss_outcomes:
  "(\<not> ctc_ranks_ok logits labels input_length label_length \<longrightarrow>
      (\<forall>operator. ctc_lambda_loss operator logits labels input_length label_length blank_index
                     = Inl AssertionFailed)) \<and>
   (ctc_ranks_ok logits labels input_length label_length \<longrightarrow>
      ctc_lambda_loss ctc_loss_v2 logits labels input_length label_length blank_index
        = (case ctc_loss_v2 labels logits
                  \<lparr>shape = length_shape (shape label_length), data = data label_length\<rparr>
                  \<lparr>shape = length_shape (shape input_length), data = data input_length\<rparr>
                  False blank_index of
             Inl e \<Rightarrow> Inl e
           | Inr loss \<Rightarrow> if length (shape loss) = 1 then Inr loss else Inl InvalidArgument)) \<and>
   (ctc_ranks_ok logits labels input_length label_length \<and>
    ctc_loss_v2 labels logits
        \<lparr>shape = length_shape (shape label_length), data = data label_length\<rparr>
        \<lparr>shape = length_shape (shape input_length), data = data input_length\<rparr>
        False blank_index \<noteq> Inl AssertionFailed \<longrightarrow>
      ctc_lambda_loss ctc_loss_v2 logits labels input_length label_length blank_index
        \<noteq> Inl AssertionFailed)"
  by (auto simp: ctc_lambda_loss_cases squeezed_length_def and_then_def set_shape_vector_def
      rank_def split: sum.splits)

theorem ctc_lambda_loss_outcomes_witness:
  "ctc_lambda_loss
      (batch_checked (\<lambda>labels logits label_length logit_length time_major blank.
         tabulate [hd (shape logits)] (\<lambda>idx. 0)))
      \<lparr>shape = [2, 1, 2], data = [0, 0, 0, 0]\<rparr> \<lparr>shape = [2, 1], data = [1, 1]\<rparr>
      \<lparr>shape = [2, 1], data = [1, 1]\<rparr> \<lparr>shape = [2, 1], data = [1, 1]\<rparr> 0
     = Inr \<lparr>shape = [2], data = [0, 0]\<rparr> \<and>
   ctc_lambda_loss
      (batch_checked (\<lambda>labels logits label_length logit_length time_major blank.
         tabulate [hd (shape logits)] (\<lambda>idx. 0)))
      \<lparr>shape = [2, 1, 2], data = [0, 0, 0, 0]\<rparr> \<lparr>shape = [2, 1], data = [1, 1]\<rparr>
      \<lparr>shape = [2, 2], data = [1, 1, 1, 1]\<rparr> \<lparr>shape = [2, 1], data = [1, 1]\<rparr> 0
     = Inl AssertionFailed \<and>
   ctc_lambda_loss
      (batch_checked (\<lambda>labels logits label_length logit_length time_major blank.
         tabulate [hd (shape logits)] (\<lambda>idx. 0)))
      \<lparr>shape = [2, 1, 2], data = [0, 0, 0, 0]\<rparr> \<lparr>shape = [3, 1], data = [1, 1, 1]\<rparr>
      \<lparr>shape = [2, 1], data = [1, 1]\<rparr> \<lparr>shape = [2, 1], data = [1, 1]\<rparr> 0
     \<noteq> Inl AssertionFailed"
proof -
  let ?op = "batch_checked (\<lambda>labels logits label_length logit_length time_major blank.
               tabulate [hd (shape logits)] (\<lambda>idx. 0 :: real))"
  let ?lg = "\<lparr>shape = [2, 1, 2], data = [0, 0, 0, 0 :: real]\<rparr>"
  let ?lb = "\<lparr>shape = [2, 1], data = [1, 1 :: int]\<rparr>"
  let ?bad = "\<lparr>shape = [2, 2], data = [1, 1, 1, 1 :: int]\<rparr>"
  have ok: "ctc_ranks_ok ?lg ?lb ?lb ?lb"
    by (simp add: ctc_ranks_ok_def length_shape_def)
  have not_ok: "\<not> ctc_ranks_ok ?lg ?lb ?bad ?lb"
    by (simp add: ctc_ranks_ok_def length_shape_def)
  have "ctc_lambda_loss ?op ?lg ?lb ?lb ?lb 0
        = (case ?op ?lb ?lg \<lparr>shape = length_shape (shape ?lb), data = data ?lb\<rparr>
                  \<lparr>shape = length_shape (shape ?lb), data = data ?lb\<rparr> False 0 of
             Inl e \<Rightarrow> Inl e
           | Inr loss \<Rightarrow> if length (shape loss) = 1 then Inr loss else Inl InvalidArgument)"
    using ctc_lambda_loss_outcomes [of ?lg ?lb ?lb ?lb 0 ?op] ok by blast
  then have 1: "ctc_lambda_loss ?op ?lg ?lb ?lb ?lb 0 = Inr \<lparr>shape = [2], data = [0, 0]\<rparr>"
    by (simp add: length_shape_def batch_checked_def tabulate_def upt_rec)
  have 2: "ctc_lambda_loss ?op ?lg ?lb ?bad ?lb 0 = Inl AssertionFailed"
    using ctc_lambda_loss_outcomes [of ?lg ?lb ?bad ?lb 0 ?op] not_ok by blast
  let ?lb3 = "\<lparr>shape = [3, 1], data = [1, 1, 1 :: int]\<rparr>"
  have ok3: "ctc_ranks_ok ?lg ?lb3 ?lb ?lb"
    by (simp add: ctc_ranks_ok_def length_shape_def)
  have op3: "?op ?lb3 ?lg \<lparr>shape = length_shape (shape ?lb), data = data ?lb\<rparr>
               \<lparr>shape = length_shape (shape ?lb), data = data ?lb\<rparr> False 0 \<noteq> Inl AssertionFailed"
    by (simp add: batch_checked_def)
  have 3: "ctc_lambda_loss ?op ?lg ?lb3 ?lb ?lb 0 \<noteq> Inl AssertionFailed"
    using ctc_lambda_loss_outcomes [of ?lg ?lb3 ?lb ?lb 0 ?op] ok3 op3 by blast
  from 1 2 3 show ?thesis by blast
qed

text \<open>
  Claim C4, at a batch of one example with lengths of the documented shape \<open>(B, 1)\<close>:
  \<^verbatim>\<open>tf.squeeze\<close> without an axis removes both dimensions of a \<open>(1, 1)\<close> tensor, the
  result has rank 0, \<^verbatim>\<open>tf.assert_rank(ilen, 1)\<close> fails and the operator is not reached.
\<close>

theorem ctc_lambda_loss_batch_of_one:
  "ctc_lambda_loss ctc_loss_v2
      \<lparr>shape = [1, 2, 3], data = [0, 0, 0, 0, 0, 0]\<rparr>
      \<lparr>shape = [1, 2], data = [1, 2]\<rparr>
      \<lparr>shape = [1, 1], data = [2]\<rparr>
      \<lparr>shape = [1, 1], data = [2]\<rparr>
      0
    = Inl AssertionFailed"
  by (simp add: ctc_lambda_loss_def rank_def squeeze_def)

section \<open>\<^verbatim>\<open>cross_entropy\<close>\<close>

text \<open>
  Claim C3. \<^verbatim>\<open>cross_entropy\<close> is the framework's softmax cross-entropy of the logits
  against the encoded labels, with \<open>label_smoothing\<close> the \<open>smoothing\<close> argument and
  the given reduction, weighted by the length mask of \<open>label_length\<close> when it is given
  and by the number 1.0 when it is \<^verbatim>\<open>None\<close>. The encoded labels are the labels
  themselves unless the rank of the logits is the rank of the labels plus 1; then they
  are the one-hot encoding, whose last axis has the size of the last axis of the logits
  and whose entry at class \<open>k\<close> is 1 exactly when the label is \<open>k\<close>.
\<close>

theorem cross_entropy_delegates:
  "cross_entropy softmax_cross_entropy len_to_mask logits labels input_length None smoothing reduction
     = softmax_cross_entropy (encoded_labels logits labels) logits (PyFloat 1) smoothing reduction \<and>
   cross_entropy softmax_cross_entropy len_to_mask logits labels input_length (Some l) smoothing reduction
     = softmax_cross_entropy (encoded_labels logits labels) logits (MaskTensor (len_to_mask l))
         smoothing reduction \<and>
   (rank logits \<noteq> rank labels + 1 \<longrightarrow> encoded_labels logits labels = labels) \<and>
   (rank logits = rank labels + 1 \<longrightarrow>
      shape (encoded_labels logits labels) = shape labels @ [last (shape logits)] \<and>
      (\<forall>idx k. valid (shape labels) idx \<and> k < last (shape logits) \<longrightarrow>
         entry (encoded_labels logits labels) (idx @ [k])
           = (if entry labels idx = int k then 1 else 0)))"
proof -
  have enc: "(if int (rank logits) - int (rank labels) = 1
              then one_hot labels (last (shape logits)) else labels)
             = encoded_labels logits labels"
    by (auto simp: encoded_labels_def)
  show ?thesis
    unfolding cross_entropy_def Let_def enc
    by (simp add: encoded_labels_def shape_one_hot entry_one_hot)
qed

theorem cross_entropy_delegates_witness:
  "cross_entropy (\<lambda>onehot logits w smoothing reduction. (data onehot, w, smoothing, reduction))
      (map_tensor (\<lambda>n. 0 < n))
      \<lparr>shape = [2, 3], data = [1, 2, 3, 4, 5, 6]\<rparr>
      \<lparr>shape = [2], data = [0, 2]\<rparr>
      () None 0 SUM_BY_NONZERO_WEIGHTS
     = ([1, 0, 0, 0, 0, 1], PyFloat 1, 0, SUM_BY_NONZERO_WEIGHTS) \<and>
   entry (encoded_labels \<lparr>shape = [2, 3], data = [1, 2, 3, 4, 5, 6]\<rparr> \<lparr>shape = [2], data = [0, 2]\<rparr>)
      ([1] @ [2]) = 1"
proof -
  let ?logits = "\<lparr>shape = [2, 3], data = [1, 2, 3, 4, 5, 6 :: real]\<rparr>"
  let ?labels = "\<lparr>shape = [2], data = [0, 2 :: int]\<rparr>"
  let ?op = "(\<lambda>onehot logits w smoothing reduction. (data onehot, w, smoothing, reduction))
             :: int tensor \<Rightarrow> real tensor \<Rightarrow> bool weights \<Rightarrow> real \<Rightarrow> reduction \<Rightarrow> _"
  note T = cross_entropy_delegates [of ?op "map_tensor (\<lambda>n. 0 < n)" ?logits ?labels "()" 0
      SUM_BY_NONZERO_WEIGHTS ?labels]
  have r: "rank ?logits = rank ?labels + 1"
    by (simp add: rank_def)
  have v: "valid (shape ?labels) [1] \<and> 2 < last (shape ?logits)"
    by (simp add: valid_def)
  have d: "data (encoded_labels ?logits ?labels) = [1, 0, 0, 0, 0, 1]"
    by (simp add: encoded_labels_def rank_def one_hot_def tabulate_def entry_def upt_rec)
  have e: "entry ?labels [1] = int 2"
    by (simp add: entry_def)
  from T r have "\<forall>idx k. valid (shape ?labels) idx \<and> k < last (shape ?logits) \<longrightarrow>
         entry (encoded_labels ?logits ?labels) (idx @ [k])
           = (if entry ?labels idx = int k then 1 else 0)"
    by blast
  then have "entry (encoded_labels ?logits ?labels) ([1] @ [2])
           = (if entry ?labels [1] = int 2 then 1 else 0)"
    using v by blast
  then have 1: "entry (encoded_labels ?logits ?labels) ([1] @ [2]) = 1"
    using e by presburger
  from T have "cross_entropy ?op (map_tensor (\<lambda>n. 0 < n)) ?logits ?labels () None 0 SUM_BY_NONZERO_WEIGHTS
     = ?op (encoded_labels ?logits ?labels) ?logits (PyFloat 1) 0 SUM_BY_NONZERO_WEIGHTS"
    by blast
  then have 2: "cross_entropy ?op (map_tensor (\<lambda>n. 0 < n)) ?logits ?labels () None 0 SUM_BY_NONZERO_WEIGHTS
     = ([1, 0, 0, 0, 0, 1], PyFloat 1, 0, SUM_BY_NONZERO_WEIGHTS)"
    using d by simp
  from 1 2 show ?thesis by blast
qed

section \<open>\<^verbatim>\<open>crf_log_likelihood\<close>\<close>

text \<open>
  Claim C5. \<^verbatim>\<open>crf_log_likelihood\<close> returns a pair. Its second component is the
  transition parameters the framework's linear-chain CRF operator returns. Its first
  component is the mean over the batch of the negated per-example log-likelihood of the
  operator: the sum of \<open>- log_likelihood[i]\<close> over the \<open>B\<close> examples, divided by \<open>B\<close>, for
  a batch of \<open>B > 0\<close> examples.
\<close>

theorem crf_log_likelihood_mean:
  "snd (crf_log_likelihood crf_op tags_scores labels input_length transitions)
     = snd (crf_op tags_scores labels input_length transitions) \<and>
   (wf (fst (crf_op tags_scores labels input_length transitions)) \<and>
    shape (fst (crf_op tags_scores labels input_length transitions)) = [B] \<and> 0 < B \<longrightarrow>
    fst (crf_log_likelihood crf_op tags_scores labels input_length transitions)
      = Inr ((\<Sum>i<B. - entry (fst (crf_op tags_scores labels input_length transitions)) [i]) / real B))"
proof -
  obtain ll tp where op: "crf_op tags_scores labels input_length transitions = (ll, tp)"
    by (cases "crf_op tags_scores labels input_length transitions")
  have "reduce_mean (map_tensor uminus ll) = Inr ((\<Sum>i<B. - entry ll [i]) / real B)"
    if "wf ll" "shape ll = [B]" "0 < B"
  proof -
    have len: "length (data ll) = B"
      using that by (simp add: wf_def)
    have "sum_list (data (map_tensor uminus ll)) = (\<Sum>i<B. entry (map_tensor uminus ll) [i])"
      using that by (intro sum_list_vector) (simp_all add: wf_def map_tensor_def)
    also have "\<dots> = (\<Sum>i<B. - entry ll [i])"
      using that len by (intro sum.cong) (simp_all add: entry_def map_tensor_def)
    finally show ?thesis
      using len that(3) by (auto simp: reduce_mean_def map_tensor_def)
  qed
  then show ?thesis
    by (simp add: crf_log_likelihood_def op)
qed

theorem crf_log_likelihood_mean_witness:
  "crf_log_likelihood (\<lambda>scores labels lens trans. (\<lparr>shape = [2], data = [- 1, - 3]\<rparr>, trans))
      \<lparr>shape = [2, 1, 1], data = [0, 0]\<rparr> \<lparr>shape = [2, 1], data = [0, 0]\<rparr>
      \<lparr>shape = [2], data = [1, 1]\<rparr> \<lparr>shape = [1, 1], data = [5]\<rparr>
     = (Inr 2, \<lparr>shape = [1, 1], data = [5]\<rparr>)"
proof -
  let ?op = "(\<lambda>scores labels lens trans. (\<lparr>shape = [2], data = [- 1, - 3]\<rparr>, trans))
               :: real tensor \<Rightarrow> int tensor \<Rightarrow> int tensor \<Rightarrow> real tensor \<Rightarrow> real tensor \<times> real tensor"
  have "wf \<lparr>shape = [2], data = [- 1, - 3 :: real]\<rparr>"
    by (simp add: wf_def)
  with crf_log_likelihood_mean [of ?op _ _ _ "\<lparr>shape = [1, 1], data = [5]\<rparr>" 2]
  show ?thesis
    by (simp add: prod_eq_iff entry_def lessThan_Suc numeral_2_eq_2)
qed

section \<open>\<^verbatim>\<open>mask_sequence_loss\<close>\<close>

text \<open>
  Claim C7, for a call without \<open>label_length\<close>. The weights that reach the operator
  are \<^verbatim>\<open>tf.ones_like(labels)\<close>: ones of the shape of the labels, and of the integer
  element type of the labels, since the branch of \<^verbatim>\<open>None\<close> has no cast to
  \<open>float32\<close>; at one sequence of two tokens they are the integer tensor \<open>[[1, 1]]\<close>. An
  operator that takes weights of element type \<open>float\<close> only, as the framework's does,
  raises on them, whatever the logits and the labels are, and no loss is returned.
  When \<open>label_length\<close> is given the weights are the mask of \<open>label_length\<close> cast to
  \<open>float32\<close>, and the loss is the operator's.
\<close>

theorem mask_sequence_loss_integer_weights:
  "mask_sequence_loss sequence_loss len_to_mask cast_float32
      \<lparr>shape = [1, 2, 2], data = [0, 0, 0, 0]\<rparr> \<lparr>shape = [1, 2], data = [0, 1]\<rparr>
      input_length None smoothing
     = sequence_loss \<lparr>shape = [1, 2, 2], data = [0, 0, 0, 0]\<rparr> \<lparr>shape = [1, 2], data = [0, 1]\<rparr>
         (IntTensor \<lparr>shape = [1, 2], data = [1, 1]\<rparr>) \<and>
   mask_sequence_loss (float_weighted loss) len_to_mask cast_float32
      \<lparr>shape = [1, 2, 2], data = [0, 0, 0, 0]\<rparr> \<lparr>shape = [1, 2], data = [0, 1]\<rparr>
      input_length None smoothing
     = Inl TypeError \<and>
   mask_sequence_loss sequence_loss len_to_mask cast_float32 logits labels input_length None smoothing
     = sequence_loss logits labels
         (IntTensor \<lparr>shape = shape labels, data = replicate (length (data labels)) 1\<rparr>) \<and>
   mask_sequence_loss (float_weighted loss) len_to_mask cast_float32
      logits labels input_length None smoothing
     = Inl TypeError \<and>
   mask_sequence_loss (float_weighted loss) len_to_mask cast_float32
      logits labels input_length (Some l) smoothing
     = Inr (loss logits labels (cast_float32 (len_to_mask l)))"
  by (simp add: mask_sequence_loss_def float_weighted_def ones_like_def map_tensor_def
      map_replicate_const)

section \<open>Arguments that are not read\<close>

text \<open>
  Claim C8. \<^verbatim>\<open>cross_entropy\<close> deletes its \<open>input_length\<close> argument, and
  \<^verbatim>\<open>mask_sequence_loss\<close> deletes its \<open>input_length\<close> and \<open>smoothing\<close> arguments, before
  anything else: two calls that differ in these arguments only return the same loss.
\<close>

theorem unread_arguments:
  "cross_entropy softmax_cross_entropy len_to_mask logits labels input_length label_length smoothing reduction
     = cross_entropy softmax_cross_entropy len_to_mask logits labels input_length' label_length smoothing reduction \<and>
   mask_sequence_loss sequence_loss len_to_mask' cast_float32 logits labels input_length label_length smoothing
     = mask_sequence_loss sequence_loss len_to_mask' cast_float32 logits labels input_length' label_length smoothing'"
  by (simp add: cross_entropy_def mask_sequence_loss_def)

section \<open>\<^verbatim>\<open>arcface_loss\<close>\<close>

text \<open>
  Claim C6, at labels of the shape the docstring gives, \<open>(batch_size, 1)\<close>, for two
  examples and two classes. The one-hot mask then has shape \<open>(2, 1, 2)\<close>, its product
  with the \<open>(2, 2)\<close> cosine matrix is broadcast, and the output has shape \<open>(2, 2, 2)\<close>:
  it is not indexed by example and class.
\<close>

theorem arcface_loss_documented_labels:
  "\<exists>out.
     arcface_loss (\<lambda>shp. tabulate shp (\<lambda>idx. 1))
         \<lparr>scope_name = [], reuse = NoReuse, variables = Map.empty\<rparr>
         \<lparr>shape = [2, 2], data = [3, 4, 4, 3]\<rparr> \<lparr>shape = [2, 1], data = [0, 1]\<rparr> 2
         (Some \<lparr>shape = [2, 2], data = [1, 0, 0, 1]\<rparr>) 64 (1 / 2) True
       = (Inr out, \<lparr>scope_name = [], reuse = NoReuse, variables = Map.empty\<rparr>) \<and>
     shape out = [2, 2, 2]"
proof -
  let ?x = "\<lparr>shape = [2, 2], data = [3, 4, 4, 3 :: real]\<rparr>"
  let ?w = "\<lparr>shape = [2, 2], data = [1, 0, 0, 1 :: real]\<rparr>"
  have "row_norm ?x 0 = 5" "row_norm ?x 1 = 5"
    by (simp_all add: row_norm_def entry_def sum_two sqrt_25)
  then have rn: "\<forall>i<2. row_norm ?x i \<noteq> 0"
    by (simp add: less_2_cases_iff)
  have cn: "\<forall>j<2. col_norm ?w j \<noteq> 0"
    using example_norms by (simp add: less_2_cases_iff)
  show ?thesis
    by (rule arcface_loss_column_labels [OF _ _ _ rn cn]) simp_all
qed

text \<open>
  For labels of rank 1, one class label per example, the function computes the formula
  of claim C6. For an embedding of \<open>B\<close> rows, a supplied weight matrix of \<open>out_num\<close>
  columns and \<open>B\<close> labels, with no row of the embedding and no column of
  the weights of norm zero, \<^verbatim>\<open>arcface_loss\<close> returns a \<open>B \<times> out_num\<close> tensor and leaves
  the variable store alone. With \<open>cos (theta i j)\<close> the product of the row-normalised
  embedding and the column-normalised weights, the output at example \<open>i\<close> and class \<open>j\<close>
  is \<open>s * cos (theta i j)\<close> when \<open>j\<close> is not the label of \<open>i\<close>; at the label it is
  \<open>s * (cos theta * cos m - sin theta * sin m)\<close>, that is \<open>s * cos (theta + m)\<close>, when
  \<open>limit_to_pi\<close> is false or \<open>cos theta > cos (pi - m)\<close>, and \<open>s * (cos theta - m * sin m)\<close>
  when \<open>limit_to_pi\<close> is true and \<open>cos theta \<le> cos (pi - m)\<close>.
\<close>

theorem arcface_loss_formula:
  assumes "shape embedding = [B, E]" and "shape weights = [E, out_num]" and "shape labels = [B]"
    and "\<forall>i<B. row_norm embedding i \<noteq> 0" and "\<forall>j<out_num. col_norm weights j \<noteq> 0"
  shows "\<exists>output.
           arcface_loss xavier_initializer g embedding labels out_num (Some weights) s m limit_to_pi
             = (Inr output, g) \<and>
           shape output = [B, out_num] \<and>
           (\<forall>i<B. \<forall>j<out_num.
              entry output [i, j]
                = margin_logit s m limit_to_pi (theta embedding weights i j) (entry labels [i] = int j) \<and>
              cos (theta embedding weights i j) = cos_theta embedding weights i j \<and>
              margin_logit s m False (theta embedding weights i j) True
                = s * cos (theta embedding weights i j + m))"
proof -
  let ?out = "tabulate [B, out_num]
                 (\<lambda>idx. margin_logit s m limit_to_pi (theta embedding weights (idx ! 0) (idx ! 1))
                           (entry labels [idx ! 0] = int (idx ! 1)))"
  have "arcface_loss xavier_initializer g embedding labels out_num (Some weights) s m limit_to_pi
             = (Inr ?out, g)"
    by (rule arcface_loss_supplied [OF assms])
  moreover have "shape ?out = [B, out_num]"
    by (rule shape_tabulate)
  moreover have "entry ?out [i, j]
      = margin_logit s m limit_to_pi (theta embedding weights i j) (entry labels [i] = int j)"
    if "i < B" "j < out_num" for i j
    using that by (simp add: entry_tabulate valid_matrix)
  moreover have "cos (theta embedding weights i j) = cos_theta embedding weights i j"
    if "i < B" "j < out_num" for i j
    using cos_theta_arccos(1) [OF assms(1,2)] assms(4,5) that by blast
  moreover have "margin_logit s m False t True = s * cos (t + m)" for t
    by (simp add: margin_logit_def cos_add)
  ultimately show ?thesis by blast
qed

theorem arcface_loss_formula_witness:
  "\<exists>output.
     arcface_loss (\<lambda>shp. tabulate shp (\<lambda>idx. 0))
         \<lparr>scope_name = [], reuse = NoReuse, variables = Map.empty\<rparr>
         \<lparr>shape = [1, 2], data = [3, 4]\<rparr> \<lparr>shape = [1], data = [0]\<rparr> 1
         (Some \<lparr>shape = [2, 1], data = [1, 0]\<rparr>) 64 (1 / 2) True
       = (Inr output, \<lparr>scope_name = [], reuse = NoReuse, variables = Map.empty\<rparr>) \<and>
     shape output = [1, 1] \<and>
     entry output [0, 0]
       = margin_logit 64 (1 / 2) True
           (theta \<lparr>shape = [1, 2], data = [3, 4]\<rparr> \<lparr>shape = [2, 1], data = [1, 0]\<rparr> 0 0) True \<and>
     cos (theta \<lparr>shape = [1, 2], data = [3, 4]\<rparr> \<lparr>shape = [2, 1], data = [1, 0]\<rparr> 0 0) = 3 / 5"
proof -
  let ?x = "\<lparr>shape = [1, 2], data = [3, 4 :: real]\<rparr>"
  let ?w = "\<lparr>shape = [2, 1], data = [1, 0 :: real]\<rparr>"
  let ?l = "\<lparr>shape = [1], data = [0 :: int]\<rparr>"
  let ?g = "\<lparr>scope_name = [], reuse = NoReuse, variables = Map.empty\<rparr>"
  have s25: "sqrt 25 = (5 :: real)"
    by (rule real_sqrt_unique) simp_all
  have rn: "row_norm ?x 0 = 5"
    by (simp add: row_norm_def entry_def sum_two s25)
  have cn: "col_norm ?w 0 = 1"
    by (simp add: col_norm_def entry_def sum_two)
  have ct: "cos_theta ?x ?w 0 0 = 3 / 5"
    unfolding cos_theta_def rn cn by (simp add: sum_two entry_def)
  have h: "\<forall>i<1. row_norm ?x i \<noteq> 0" "\<forall>j<1. col_norm ?w j \<noteq> 0"
    using rn cn by simp_all
  have e: "entry ?l [0] = int 0"
    by (simp add: entry_def)
  obtain out where o:
    "arcface_loss (\<lambda>shp. tabulate shp (\<lambda>idx. 0)) ?g ?x ?l 1 (Some ?w) 64 (1 / 2) True = (Inr out, ?g)"
    "shape out = [1, 1]"
    "\<forall>i<1. \<forall>j<1. entry out [i, j]
        = margin_logit 64 (1 / 2) True (theta ?x ?w i j) (entry ?l [i] = int j) \<and>
        cos (theta ?x ?w i j) = cos_theta ?x ?w i j \<and>
        margin_logit 64 (1 / 2) False (theta ?x ?w i j) True = 64 * cos (theta ?x ?w i j + 1 / 2)"
    using arcface_loss_formula [of ?x 1 2 ?w 1 ?l "\<lambda>shp. tabulate shp (\<lambda>idx. 0)" ?g 64 "1 / 2" True] h
    by auto
  from o(3) have "entry out [0, 0]
        = margin_logit 64 (1 / 2) True (theta ?x ?w 0 0) (entry ?l [0] = int 0)"
    "cos (theta ?x ?w 0 0) = cos_theta ?x ?w 0 0"
    by blast+
  with o(1,2) e ct show ?thesis
    by (intro exI [of _ out]) simp
qed

section \<open>The shape of the results\<close>

subsection \<open>An example input of \<^verbatim>\<open>arcface_loss\<close>\<close>


subsection \<open>Scalar or per-example results\<close>




section \<open>Scale invariance of \<^verbatim>\<open>arcface_loss\<close>\<close>

subsection \<open>Rounding and the operators on a \<open>1 \<times> 1\<close> matrix\<close>











subsection \<open>Scaling the embedding and the weights\<close>




section \<open>State and determinism\<close>







end
